theory Spec2Isabelle
  imports Complex_Main "HOL-Library.Multiset"
begin

section \<open>TubeLingo: the state of the application (src/App.jsx)\<close>

text \<open>
  The application is one React component, \<^verbatim>\<open>TubeLingoApp\<close>, whose state is a set of
  \<^verbatim>\<open>useState\<close> cells. The model is one record holding every cell, and each handler is a
  function from the state before the event to the state after it. JavaScript numbers that
  hold counts and indices are modelled as \<open>nat\<close> or \<open>int\<close> (the values stay far below
  \<open>2^53\<close>, where doubles are exact); timestamps are modelled as \<open>real\<close> (finite doubles,
  only compared). The server payload is duck-typed JSON; the records below give it the
  shape that the analyze interface documents.
\<close>

subsection \<open>Server data\<close>

text \<open>A transcript line \<^verbatim>\<open>{time, text, kr}\<close>. The field \<^verbatim>\<open>text\<close> is named \<open>text'\<close> here.\<close>

record scriptLine =
  time :: real
  text' :: string
  kr :: string

text \<open>A vocabulary entry \<^verbatim>\<open>{word, type, meaning}\<close>; \<^verbatim>\<open>type\<close> is named \<open>wtype\<close> here.\<close>

record vocabEntry =
  word :: string
  wtype :: string
  meaning :: string

text \<open>A saved word is \<^verbatim>\<open>{ ...wordObj, date }\<close>: the entry's fields and the save date.\<close>

record savedWord = vocabEntry +
  date :: string

text \<open>A bank question \<^verbatim>\<open>{question, options, answer, rationale, difficulty}\<close>.\<close>

record quizQuestion =
  question :: string
  options :: "string list"
  answer :: nat
  rationale :: string
  difficulty :: string

text \<open>
  A session question is \<^verbatim>\<open>{ ...q, id: i }\<close>: the bank question's fields and the
  session-local id (named \<open>qid\<close> here, since \<open>id\<close> is the identity function of HOL).
\<close>

record sessionQuestion = quizQuestion +
  qid :: nat

text \<open>
  The study bundle \<^verbatim>\<open>activeData\<close>. The handlers test \<^verbatim>\<open>script\<close>, \<^verbatim>\<open>vocabulary\<close> and
  \<^verbatim>\<open>quizBank\<close> for absence, so each is optional; \<^verbatim>\<open>thumbnail\<close> is added by the client.
\<close>

record studyBundle =
  videoId :: string
  script :: "scriptLine list option"
  vocabulary :: "vocabEntry list option"
  quizBank :: "quizQuestion list option"
  thumbnail :: "string option"

subsection \<open>Client state\<close>

datatype view = Home | Analyzing | Study | QuizSetup | Quiz | Result | Dashboard

datatype tab = StudyTab | WordsTab

record userStats =
  xp :: int
  streak :: int
  todayXp :: int
  goalXp :: int
  savedWords :: "savedWord list"

text \<open>
  \<^verbatim>\<open>quizConfig = { count, difficulty }\<close>. The fields are named \<open>cfgCount\<close> and
  \<open>cfgDifficulty\<close>, since \<open>difficulty\<close> is already the field of a question.
\<close>

record quizConfig =
  cfgCount :: nat
  cfgDifficulty :: string

text \<open>
  Every \<^verbatim>\<open>useState\<close> cell of \<^verbatim>\<open>TubeLingoApp\<close>, and \<open>alerts\<close>: the messages shown so
  far by \<^verbatim>\<open>alert(...)\<close>, latest last.
\<close>

record appState =
  view :: view
  activeTab :: tab
  urlInput :: string
  activeData :: "studyBundle option"
  isLoading :: bool
  errorMsg :: string
  userStats :: userStats
  playing :: bool
  currentScriptIdx :: int
  quizConfig :: quizConfig
  quizSession :: "sessionQuestion list"
  currentQIdx :: nat
  selectedOpt :: "nat option"
  isAnswered :: bool
  isCorrect :: bool
  score :: nat
  alerts :: "string list"

text \<open>The initial values given to \<^verbatim>\<open>useState\<close> (lines 84 to 114).\<close>

definition initialUserStats :: userStats where
  "initialUserStats =
     \<lparr>xp = 1250, streak = 12, todayXp = 40, goalXp = 100, savedWords = []\<rparr>"

definition initialState :: appState where
  "initialState =
     \<lparr>view = Home, activeTab = StudyTab, urlInput = [], activeData = None,
      isLoading = False, errorMsg = [], userStats = initialUserStats,
      playing = False, currentScriptIdx = 0,
      quizConfig = \<lparr>cfgCount = 5, cfgDifficulty = ''normal''\<rparr>,
      quizSession = [], currentQIdx = 0, selectedOpt = None,
      isAnswered = False, isCorrect = False, score = 0, alerts = []\<rparr>"

subsection \<open>Progress accumulator\<close>

text \<open>
  \<^verbatim>\<open>finishQuiz\<close> (lines 229 to 237): \<^verbatim>\<open>gainedXp = score * 10 + 20\<close>, added to \<^verbatim>\<open>xp\<close> and
  \<^verbatim>\<open>todayXp\<close> of the previous stats; then the view becomes \<^verbatim>\<open>result\<close>.
\<close>

definition gainedXp :: "appState \<Rightarrow> int" where
  "gainedXp s = int (score s) * 10 + 20"

definition finishQuiz :: "appState \<Rightarrow> appState" where
  "finishQuiz s =
     s\<lparr>userStats := (userStats s)\<lparr>xp := xp (userStats s) + gainedXp s,
                                   todayXp := todayXp (userStats s) + gainedXp s\<rparr>,
       view := Result\<rparr>"

text \<open>
  \<^verbatim>\<open>nextQuestion\<close> (lines 219 to 227) moves to the next question, or finishes the quiz
  on the last one. \<^verbatim>\<open>quizSession.length - 1\<close> is \<open>-1\<close> for an empty session, so the
  comparison is made on integers.
\<close>

definition nextQuestion :: "appState \<Rightarrow> appState" where
  "nextQuestion s =
     (if int (currentQIdx s) < int (length (quizSession s)) - 1
      then s\<lparr>currentQIdx := currentQIdx s + 1, selectedOpt := None, isAnswered := False\<rparr>
      else finishQuiz s)"

text \<open>
  \<^verbatim>\<open>saveWord\<close> (lines 166 to 173). \<^verbatim>\<open>savedWords.find(w => w.word === wordObj.word)\<close> is
  \<open>find\<close> of HOL's lists; the found entry is an object, hence truthy, so \<^verbatim>\<open>!find(...)\<close>
  holds exactly when nothing is found. \<open>today\<close> stands for the value of
  \<^verbatim>\<open>new Date().toLocaleDateString()\<close> at the time of the call.
\<close>

definition stamped :: "vocabEntry \<Rightarrow> string \<Rightarrow> savedWord" where
  "stamped wordObj today =
     \<lparr>word = word wordObj, wtype = wtype wordObj, meaning = meaning wordObj, date = today\<rparr>"

definition saveWord :: "string \<Rightarrow> vocabEntry \<Rightarrow> appState \<Rightarrow> appState" where
  "saveWord today wordObj s =
     (if find (\<lambda>w. word w = word wordObj) (savedWords (userStats s)) = None
      then s\<lparr>userStats :=
               (userStats s)\<lparr>savedWords := savedWords (userStats s) @ [stamped wordObj today]\<rparr>\<rparr>
      else s)"

subsection \<open>Transcript synchronizer\<close>

text \<open>\<^verbatim>\<open>Array.prototype.findIndex\<close>: the first index whose element satisfies the test, or -1.\<close>

fun findIndex :: "('a \<Rightarrow> bool) \<Rightarrow> 'a list \<Rightarrow> int" where
  "findIndex p [] = - 1"
| "findIndex p (x # xs) =
     (if p x then 0 else (let i = findIndex p xs in if i = - 1 then - 1 else i + 1))"

datatype jsError = TypeError

text \<open>
  The \<^verbatim>\<open>onProgress\<close> callback of the player (lines 325 to 331), called with
  \<^verbatim>\<open>playedSeconds\<close>. Reading \<^verbatim>\<open>activeData.script\<close> of a null \<^verbatim>\<open>activeData\<close> throws; an
  absent script returns at once. \<^verbatim>\<open>setCurrentScriptIdx(v)\<close> stores \<open>v\<close> in the cell.
\<close>

definition onProgress :: "real \<Rightarrow> appState \<Rightarrow> jsError + appState" where
  "onProgress playedSeconds s =
     (case activeData s of
        None \<Rightarrow> Inl TypeError
      | Some d \<Rightarrow>
          (case script d of
             None \<Rightarrow> Inr s
           | Some ls \<Rightarrow>
               (let idx = findIndex (\<lambda>line. time line > playedSeconds) ls
                in if idx \<noteq> - 1 \<and> idx - 1 \<noteq> currentScriptIdx s
                   then Inr (s\<lparr>currentScriptIdx := max 0 (idx - 1)\<rparr>)
                   else Inr s)))"

text \<open>
  The same callback, read for the call it makes: \<open>Some v\<close> when the tick calls
  \<^verbatim>\<open>setCurrentScriptIdx(v)\<close>, \<open>None\<close> when it calls nothing. The call is made under the
  guard of line 328, which compares \<^verbatim>\<open>idx - 1\<close>, and its argument is
  \<^verbatim>\<open>Math.max(0, idx - 1)\<close>.
\<close>

definition onProgressCall :: "real \<Rightarrow> appState \<Rightarrow> jsError + int option" where
  "onProgressCall playedSeconds s =
     (case activeData s of
        None \<Rightarrow> Inl TypeError
      | Some d \<Rightarrow>
          (case script d of
             None \<Rightarrow> Inr None
           | Some ls \<Rightarrow>
               (let idx = findIndex (\<lambda>line. time line > playedSeconds) ls
                in if idx \<noteq> - 1 \<and> idx - 1 \<noteq> currentScriptIdx s
                   then Inr (Some (max 0 (idx - 1)))
                   else Inr None)))"

subsection \<open>Quiz session builder\<close>

text \<open>
  The random source. \<open>pick i\<close> is the value behind the \<open>i\<close>-th
  \<^verbatim>\<open>Math.floor(Math.random() * questions.length)\<close> of the padding loop: the loop uses
  \<open>pick i mod length\<close>, an index below the length, which is all that \<^verbatim>\<open>Math.random()\<close>
  in \<open>[0, 1)\<close> guarantees. \<open>order\<close> decides the outcome of
  \<^verbatim>\<open>sort(() => Math.random() - 0.5)\<close>: the order a sort reaches under a random comparator is
  left to the engine, so the model lets \<open>order\<close> select any rearrangement of the array.
\<close>

record randomSource =
  pick :: "nat \<Rightarrow> nat"
  order :: "nat \<Rightarrow> nat"

text \<open>
  The padding loop (lines 193 to 195): while the array is shorter than the requested
  count, push a copy of the element at a random index. \<^verbatim>\<open>generateQuiz\<close> reaches the loop
  with a non-empty array only, so the index read is always in range.
\<close>

function padQuestions :: "(nat \<Rightarrow> nat) \<Rightarrow> nat \<Rightarrow> nat \<Rightarrow> 'a list \<Rightarrow> 'a list" where
  "padQuestions pk i cnt qs =
     (if length qs < cnt
      then padQuestions pk (Suc i) cnt (qs @ [qs ! (pk i mod length qs)])
      else qs)"
  by pat_completeness auto
termination
  by (relation "measure (\<lambda>(pk, i, cnt, qs). cnt - length qs)") auto

declare padQuestions.simps [simp del]

text \<open>
  The rearrangement selected by \<open>ord\<close>: the element at index \<open>ord n mod length\<close> comes
  next and is taken out of the remaining elements.
\<close>

fun shuffleAux :: "(nat \<Rightarrow> nat) \<Rightarrow> nat \<Rightarrow> 'a list \<Rightarrow> 'a list" where
  "shuffleAux ord 0 xs = []"
| "shuffleAux ord (Suc n) xs =
     (let j = ord n mod length xs
      in xs ! j # shuffleAux ord n (take j xs @ drop (Suc j) xs))"

definition shuffle :: "(nat \<Rightarrow> nat) \<Rightarrow> 'a list \<Rightarrow> 'a list" where
  "shuffle ord xs = shuffleAux ord (length xs) xs"

text \<open>\<^verbatim>\<open>.map((q, i) => ({ ...q, id: i }))\<close>: a fresh object per question, numbered from 0.\<close>

definition withId :: "quizQuestion \<Rightarrow> nat \<Rightarrow> sessionQuestion" where
  "withId q i =
     \<lparr>question = question q, options = options q, answer = answer q,
      rationale = rationale q, difficulty = difficulty q, qid = i\<rparr>"

fun withIds :: "nat \<Rightarrow> quizQuestion list \<Rightarrow> sessionQuestion list" where
  "withIds i [] = []"
| "withIds i (q # qs) = withId q i # withIds (Suc i) qs"

text \<open>
  The two arrays alive in \<^verbatim>\<open>generateQuiz\<close>: the bank held by \<^verbatim>\<open>activeData\<close>, and the
  fresh array that \<^verbatim>\<open>filter\<close> returns. The local variable \<^verbatim>\<open>questions\<close> is a reference to
  one of them; \<^verbatim>\<open>push\<close> and \<^verbatim>\<open>sort\<close> write through it, in place.
\<close>

datatype arrayRef = BankArray | FilteredArray

type_synonym arrays = "arrayRef \<Rightarrow> quizQuestion list"

definition newArrays :: "quizQuestion list \<Rightarrow> quizQuestion list \<Rightarrow> arrays" where
  "newArrays bank filtered = (\<lambda>r. case r of BankArray \<Rightarrow> bank | FilteredArray \<Rightarrow> filtered)"

text \<open>The text of the alert of line 183, as UTF-8 bytes.\<close>

definition noQuizDataMsg :: string where
  "noQuizDataMsg = map char_of
     [236, 131, 157, 236, 132, 177, 235, 144, 156, 32, 237, 128, 180, 236, 166, 136, 32,
      235, 141, 176, 236, 157, 180, 237, 132, 176, 234, 176, 128, 32, 236, 151, 134, 236,
      138, 181, 235, 139, 136, 235, 139, 164, 46 :: nat]"

text \<open>\<^verbatim>\<open>activeData?.quizBank\<close>: absent when there is no bundle or the bundle has no bank.\<close>

definition bankOf :: "appState \<Rightarrow> quizQuestion list option" where
  "bankOf s = (case activeData s of None \<Rightarrow> None | Some d \<Rightarrow> quizBank d)"

text \<open>
  \<^verbatim>\<open>generateQuiz\<close> (lines 180 to 209). Without a bank, or with an empty one, it alerts and
  returns. Otherwise \<^verbatim>\<open>questions\<close> is the filtered array, or the bank itself when the
  filter found nothing; the array is padded and sorted in place, and the session is a
  numbered copy of its first \<^verbatim>\<open>count\<close> elements. The bank that \<^verbatim>\<open>activeData\<close> holds
  afterwards is what the in-place writes left in \<open>BankArray\<close>.
\<close>

definition generateQuiz :: "randomSource \<Rightarrow> appState \<Rightarrow> appState" where
  "generateQuiz rnd s =
     (case bankOf s of
        None \<Rightarrow> s\<lparr>alerts := alerts s @ [noQuizDataMsg]\<rparr>
      | Some bank \<Rightarrow>
          if length bank = 0 then s\<lparr>alerts := alerts s @ [noQuizDataMsg]\<rparr>
          else
            (let h0 = newArrays bank
                        (filter (\<lambda>q. difficulty q = cfgDifficulty (quizConfig s)) bank);
                 questions = (if length (h0 FilteredArray) = 0 then BankArray else FilteredArray);
                 h1 = h0(questions :=
                        padQuestions (pick rnd) 0 (cfgCount (quizConfig s)) (h0 questions));
                 h2 = h1(questions := shuffle (order rnd) (h1 questions));
                 sessionQuestions = withIds 0 (take (cfgCount (quizConfig s)) (h2 questions))
             in s\<lparr>activeData :=
                     map_option (\<lambda>d. d\<lparr>quizBank := Some (h2 BankArray)\<rparr>) (activeData s),
                   quizSession := sessionQuestions, currentQIdx := 0, score := 0,
                   selectedOpt := None, isAnswered := False, view := Quiz\<rparr>))"

subsection \<open>Analyze request\<close>

text \<open>
  A value as \<^verbatim>\<open>response.json()\<close> yields it. \<open>'n\<close> is the runtime's number type; an
  object lists its members in the order of the text, duplicate keys included.
\<close>

datatype 'n json =
    JNull
  | JBool bool
  | JNumber 'n
  | JString string
  | JArray "'n json list"
  | JObject "(string \<times> 'n json) list"

text \<open>
  What the model takes from the JavaScript runtime: whether a number is zero, the text of
  a number, the message of the TypeError for reading a property (named by the argument)
  of \<^verbatim>\<open>null\<close>, and the message of the TypeError for an object that has no string
  conversion.
\<close>

record 'n runtime =
  isZero :: "'n \<Rightarrow> bool"
  numberToString :: "'n \<Rightarrow> string"
  nullReadMsg :: "string \<Rightarrow> string"
  notPrimitiveMsg :: string

text \<open>
  \<^verbatim>\<open>errData.detail\<close> for a body that is not \<^verbatim>\<open>null\<close>: the member of an object (of duplicate
  keys \<^verbatim>\<open>JSON.parse\<close> keeps the last), and \<^verbatim>\<open>undefined\<close>, here \<open>None\<close>, for an object
  without the key and for a boolean, a number, a string or an array.
\<close>

fun detailOf :: "'n json \<Rightarrow> 'n json option" where
  "detailOf (JObject members) = map_of (rev members) ''detail''"
| "detailOf other = None"

text \<open>The truth value of a JSON value under \<^verbatim>\<open>||\<close>.\<close>

fun truthy :: "'n runtime \<Rightarrow> 'n json \<Rightarrow> bool" where
  "truthy rt JNull = False"
| "truthy rt (JBool b) = b"
| "truthy rt (JNumber n) = (\<not> isZero rt n)"
| "truthy rt (JString str) = (str \<noteq> [])"
| "truthy rt (JArray elems) = True"
| "truthy rt (JObject members) = True"

fun joinComma :: "string list \<Rightarrow> string" where
  "joinComma [] = []"
| "joinComma [x] = x"
| "joinComma (x # y # ys) = x @ '','' @ joinComma (y # ys)"

text \<open>
  The string conversion that \<^verbatim>\<open>new Error(v)\<close> applies to its argument; \<open>None\<close> when the
  conversion throws. An array joins the conversions of its elements with commas, a
  \<^verbatim>\<open>null\<close> element giving the empty string. An object is \<^verbatim>\<open>[object Object]\<close>, unless it
  has a member \<^verbatim>\<open>toString\<close>: that member hides the inherited method and is not callable,
  \<^verbatim>\<open>valueOf\<close> yields no primitive either, and the conversion throws a TypeError. The
  engine's limit on the depth of the recursion is not modelled.
\<close>

fun toStringJS :: "'n runtime \<Rightarrow> 'n json \<Rightarrow> string option" where
  "toStringJS rt JNull = Some ''null''"
| "toStringJS rt (JBool b) = Some (if b then ''true'' else ''false'')"
| "toStringJS rt (JNumber n) = Some (numberToString rt n)"
| "toStringJS rt (JString str) = Some str"
| "toStringJS rt (JArray elems) =
     map_option joinComma
       (those (map (\<lambda>e. case e of JNull \<Rightarrow> Some [] | _ \<Rightarrow> toStringJS rt e) elems))"
| "toStringJS rt (JObject members) =
     (if ''toString'' \<in> fst ` set members then None else Some ''[object Object]'')"

text \<open>
  What the one request of \<^verbatim>\<open>handleUrlSubmit\<close> can end in. \<^verbatim>\<open>fetch\<close> rejects (a network
  failure; the string is the error's message), or it yields a response whose \<^verbatim>\<open>ok\<close> flag
  is false or true; \<^verbatim>\<open>response.json()\<close> then rejects with a message, or yields the body.
  The body of a response that is not ok is any JSON value. The body of an ok response is
  \<^verbatim>\<open>null\<close> or a bundle of the shape that the analyze interface documents.
\<close>

datatype 'a jsonResult = JsonThrows string | JsonValue 'a

datatype successBody = NullBody | Bundle studyBundle

datatype 'n fetchOutcome =
    FetchRejects string
  | ResponseNotOk "'n json jsonResult"
  | ResponseOk "successBody jsonResult"

text \<open>The default message of line 136, as UTF-8 bytes.\<close>

definition analyzeFailedMsg :: string where
  "analyzeFailedMsg = map char_of
     [235, 182, 132, 236, 132, 157, 236, 151, 144, 32, 236, 139, 164, 237, 140, 168, 237,
      150, 136, 236, 138, 181, 235, 139, 136, 235, 139, 164, 46 :: nat]"

text \<open>
  The message of the error that line 136 throws for the body \<open>errData\<close>:
  \<^verbatim>\<open>throw new Error(errData.detail || default)\<close>. Reading \<^verbatim>\<open>detail\<close> of \<^verbatim>\<open>null\<close> throws a
  TypeError. A missing or falsy detail gives the default. A truthy detail is converted to
  a string by \<^verbatim>\<open>Error\<close>, and a conversion that throws leaves its own TypeError.
\<close>

fun notOkMessage :: "'n runtime \<Rightarrow> 'n json \<Rightarrow> string" where
  "notOkMessage rt JNull = nullReadMsg rt ''detail''"
| "notOkMessage rt errData =
     (case detailOf errData of
        None \<Rightarrow> analyzeFailedMsg
      | Some v \<Rightarrow>
          if truthy rt v
          then (case toStringJS rt v of None \<Rightarrow> notPrimitiveMsg rt | Some shown \<Rightarrow> shown)
          else analyzeFailedMsg)"

text \<open>
  The \<^verbatim>\<open>try\<close> block (lines 125 to 148): \<open>Inl\<close> is the message of the error that reaches
  \<^verbatim>\<open>catch\<close>, \<open>Inr\<close> the body of a successful response. Reading \<^verbatim>\<open>data.videoId\<close> of a
  \<^verbatim>\<open>null\<close> body throws before \<^verbatim>\<open>setActiveData\<close> is called.
\<close>

fun tryAnalyze :: "'n runtime \<Rightarrow> 'n fetchOutcome \<Rightarrow> string + studyBundle" where
  "tryAnalyze rt (FetchRejects m) = Inl m"
| "tryAnalyze rt (ResponseNotOk (JsonThrows m)) = Inl m"
| "tryAnalyze rt (ResponseNotOk (JsonValue errData)) = Inl (notOkMessage rt errData)"
| "tryAnalyze rt (ResponseOk (JsonThrows m)) = Inl m"
| "tryAnalyze rt (ResponseOk (JsonValue NullBody)) = Inl (nullReadMsg rt ''videoId'')"
| "tryAnalyze rt (ResponseOk (JsonValue (Bundle data))) = Inr data"

definition thumbnailOf :: "string \<Rightarrow> string" where
  "thumbnailOf vid = ''https://img.youtube.com/vi/'' @ vid @ ''/mqdefault.jpg''"

text \<open>
  \<^verbatim>\<open>handleUrlSubmit\<close> (lines 118 to 156), with the outcome of its request. Nothing else
  can run between the request and its outcome: the \<^verbatim>\<open>analyzing\<close> view renders no control.
\<close>

definition handleUrlSubmit :: "'n runtime \<Rightarrow> 'n fetchOutcome \<Rightarrow> appState \<Rightarrow> appState" where
  "handleUrlSubmit rt outcome s =
     (if urlInput s = [] then s
      else
        (let s1 = s\<lparr>isLoading := True, errorMsg := [], view := Analyzing\<rparr>;
             s2 = (case tryAnalyze rt outcome of
                     Inl message \<Rightarrow> s1\<lparr>errorMsg := message, view := Home\<rparr>
                   | Inr data \<Rightarrow>
                       s1\<lparr>activeData := Some (data\<lparr>thumbnail := Some (thumbnailOf (videoId data))\<rparr>),
                          view := Study, playing := True\<rparr>)
         in s2\<lparr>isLoading := False\<rparr>))"

subsection \<open>The active index that a tick computes\<close>

text \<open>
  The index that \<^verbatim>\<open>onProgress\<close> hands to \<^verbatim>\<open>setCurrentScriptIdx\<close> when its scan finds a
  line: \<^verbatim>\<open>Math.max(0, idx - 1)\<close>. A scan that finds no line computes no index.
\<close>

definition computedIdx :: "scriptLine list \<Rightarrow> real \<Rightarrow> int option" where
  "computedIdx ls playedSeconds =
     (let idx = findIndex (\<lambda>line. time line > playedSeconds) ls
      in if idx = - 1 then None else Some (max 0 (idx - 1)))"

subsection \<open>Example data\<close>

text \<open>
  A bundle as the analyze interface returns it: a transcript of two lines, at 2 and 5
  seconds, and a bank of one question, of difficulty \<^verbatim>\<open>easy\<close>.
\<close>

definition easyQuestion :: quizQuestion where
  "easyQuestion =
     \<lparr>question = ''Q1'', options = [''a'', ''b''], answer = 0, rationale = ''R1'',
      difficulty = ''easy''\<rparr>"

definition twoLines :: "scriptLine list" where
  "twoLines = [\<lparr>time = 2, text' = ''one'', kr = ''hana''\<rparr>,
               \<lparr>time = 5, text' = ''two'', kr = ''dul''\<rparr>]"

definition exampleBundle :: studyBundle where
  "exampleBundle =
     \<lparr>videoId = ''abc'', script = Some twoLines, vocabulary = Some [],
      quizBank = Some [easyQuestion], thumbnail = Some (thumbnailOf ''abc'')\<rparr>"

text \<open>The state in the study view of that bundle, and in the quiz setup with chosen options.\<close>

definition studyState :: appState where
  "studyState = initialState\<lparr>activeData := Some exampleBundle, view := Study, playing := True\<rparr>"

definition setupState :: "nat \<Rightarrow> string \<Rightarrow> appState" where
  "setupState k lv =
     studyState\<lparr>view := QuizSetup, playing := False,
                quizConfig := \<lparr>cfgCount = k, cfgDifficulty = lv\<rparr>\<rparr>"

definition zeroSource :: randomSource where
  "zeroSource = \<lparr>pick = (\<lambda>i. 0), order = (\<lambda>i. 0)\<rparr>"

text \<open>The same states with other banks: one of four questions, three of them easy; an empty one.\<close>

definition hardQuestion :: quizQuestion where
  "hardQuestion =
     \<lparr>question = ''Q2'', options = [''c'', ''d''], answer = 1, rationale = ''R2'',
      difficulty = ''hard''\<rparr>"

definition mixedBank :: "quizQuestion list" where
  "mixedBank = [easyQuestion, hardQuestion, easyQuestion, easyQuestion]"

definition withBank :: "quizQuestion list \<Rightarrow> appState \<Rightarrow> appState" where
  "withBank bank s = s\<lparr>activeData := Some (exampleBundle\<lparr>quizBank := Some bank\<rparr>)\<rparr>"

text \<open>The home state with a link typed in; a vocabulary entry.\<close>

definition typedState :: appState where
  "typedState = initialState\<lparr>urlInput := ''https://youtu.be/abc''\<rparr>"

definition appleEntry :: vocabEntry where
  "appleEntry = \<lparr>word = ''apple'', wtype = ''noun'', meaning = ''sagwa''\<rparr>"

text \<open>
  A runtime over integer numbers, with the messages of one engine (the number text is
  not used by the examples), and a failure body whose detail is a list of objects, as a
  validation failure sends it.
\<close>

definition exampleRuntime :: "int runtime" where
  "exampleRuntime =
     \<lparr>isZero = (\<lambda>n. n = 0), numberToString = (\<lambda>n. ''number''),
      nullReadMsg = (\<lambda>p. ''Cannot read properties of null (reading '' @ p @ '')''),
      notPrimitiveMsg = ''Cannot convert object to primitive value''\<rparr>"

definition validationBody :: "int json" where
  "validationBody =
     JObject [(''detail'',
               JArray [JObject [(''loc'', JArray [JString ''body'', JString ''url'']),
                                (''msg'', JString ''field required'')]])]"

section \<open>Library of the model\<close>

subsection \<open>\<open>findIndex\<close>\<close>

lemma findIndex_ge: "- 1 \<le> findIndex p xs"
  by (induction xs) (auto simp: Let_def)

lemma findIndex_none_iff: "findIndex p xs = - 1 \<longleftrightarrow> (\<forall>x\<in>set xs. \<not> p x)"
proof (induction xs)
  case Nil
  then show ?case by simp
next
  case (Cons a xs)
  have "- 1 \<le> findIndex p xs" by (rule findIndex_ge)
  with Cons show ?case by (auto simp: Let_def)
qed

lemma findIndex_found:
  "findIndex p xs \<noteq> - 1 \<Longrightarrow>
     0 \<le> findIndex p xs \<and> nat (findIndex p xs) < length xs
     \<and> p (xs ! nat (findIndex p xs))
     \<and> (\<forall>j < nat (findIndex p xs). \<not> p (xs ! j))"
proof (induction xs)
  case Nil
  then show ?case by simp
next
  case (Cons a xs)
  show ?case
  proof (cases "p a")
    case True
    then show ?thesis by simp
  next
    case False
    with Cons.prems have ne: "findIndex p xs \<noteq> - 1" by (auto simp: Let_def split: if_splits)
    from Cons.IH [OF ne] have ih: "0 \<le> findIndex p xs" "nat (findIndex p xs) < length xs"
      "p (xs ! nat (findIndex p xs))" "\<forall>j < nat (findIndex p xs). \<not> p (xs ! j)" by auto
    have eq: "findIndex p (a # xs) = findIndex p xs + 1" using False ne by (simp add: Let_def)
    have n: "nat (findIndex p xs + 1) = Suc (nat (findIndex p xs))" using ih(1) by simp
    show ?thesis unfolding eq n using ih False
      by (auto simp: nth_Cons split: nat.splits)
  qed
qed

subsection \<open>Padding, rearranging and numbering\<close>

text \<open>
  The padding loop stops with at least the requested count of elements, and only ever
  pushes elements the array already holds.
\<close>

lemma padQuestions_length: "length (padQuestions pk i cnt qs) = max cnt (length qs)"
proof (induction pk i cnt qs rule: padQuestions.induct)
  case (1 pk i cnt qs)
  show ?case
  proof (cases "length qs < cnt")
    case True
    with "1" show ?thesis by (subst padQuestions.simps) simp
  next
    case False
    then show ?thesis by (subst padQuestions.simps) simp
  qed
qed

lemma padQuestions_set: "qs \<noteq> [] \<Longrightarrow> set (padQuestions pk i cnt qs) = set qs"
proof (induction pk i cnt qs rule: padQuestions.induct)
  case (1 pk i cnt qs)
  show ?case
  proof (cases "length qs < cnt")
    case True
    have "pk i mod length qs < length qs" using "1.prems" by simp
    then have "qs ! (pk i mod length qs) \<in> set qs" by (rule nth_mem)
    with "1.IH" [OF True] True show ?thesis
      by (subst padQuestions.simps) auto
  next
    case False
    then show ?thesis by (subst padQuestions.simps) simp
  qed
qed

text \<open>
  Whatever \<open>ord\<close> selects, the rearranged array is a permutation of the array.
\<close>

lemma shuffleAux_mset: "length xs = n \<Longrightarrow> mset (shuffleAux ord n xs) = mset xs"
proof (induction n arbitrary: xs)
  case 0
  then show ?case by simp
next
  case (Suc n)
  let ?j = "ord n mod length xs"
  have j: "?j < length xs" using Suc.prems by simp
  have len: "length (take ?j xs @ drop (Suc ?j) xs) = n" using Suc.prems j by simp
  have "mset xs = mset (take ?j xs @ xs ! ?j # drop (Suc ?j) xs)"
    using id_take_nth_drop [OF j] by simp
  then show ?case using Suc.IH [OF len] by (simp add: Let_def)
qed

lemma shuffle_mset: "mset (shuffle ord xs) = mset xs"
  by (simp add: shuffle_def shuffleAux_mset)

lemma shuffle_length: "length (shuffle ord xs) = length xs"
  using shuffle_mset [of ord xs] by (metis size_mset)

lemma shuffle_set: "set (shuffle ord xs) = set xs"
  using shuffle_mset [of ord xs] by (metis set_mset_mset)

lemma same_elements_replicate:
  assumes "length xs = n" and "set xs \<subseteq> {x}"
  shows "xs = replicate n x"
  using assms by (intro replicate_eqI) auto

lemma withIds_length: "length (withIds i qs) = length qs"
  by (induction qs arbitrary: i) auto

lemma withIds_qid: "map qid (withIds i qs) = [i..<i + length qs]"
proof (induction qs arbitrary: i)
  case Nil
  then show ?case by simp
next
  case (Cons q qs)
  have "[i..<i + length (q # qs)] = i # [Suc i..<Suc i + length qs]"
    by (subst upt_rec) simp
  with Cons.IH [of "Suc i"] show ?case by (simp add: withId_def)
qed

lemma withIds_copy: "sq \<in> set (withIds i qs) \<Longrightarrow> \<exists>q\<in>set qs. sq = withId q (qid sq)"
  by (induction qs arbitrary: i) (auto simp: withId_def)

lemma withId_difficulty: "difficulty (withId q i) = difficulty q"
  by (simp add: withId_def)

subsection \<open>What \<open>generateQuiz\<close> builds\<close>

text \<open>
  With a non-empty bank, the session is the numbered prefix of the padded and rearranged
  working array, and the view becomes \<^verbatim>\<open>quiz\<close>.
\<close>

lemma generateQuiz_session:
  assumes "bankOf s = Some bank" and "bank \<noteq> []"
  shows "quizSession (generateQuiz rnd s) =
           withIds 0 (take (cfgCount (quizConfig s))
             (shuffle (order rnd)
               (padQuestions (pick rnd) 0 (cfgCount (quizConfig s))
                 (if filter (\<lambda>q. difficulty q = cfgDifficulty (quizConfig s)) bank = []
                  then bank
                  else filter (\<lambda>q. difficulty q = cfgDifficulty (quizConfig s)) bank))))"
  using assms by (simp add: generateQuiz_def Let_def newArrays_def)

lemma generateQuiz_view:
  assumes "bankOf s = Some bank" and "bank \<noteq> []"
  shows "view (generateQuiz rnd s) = Quiz"
  using assms by (simp add: generateQuiz_def Let_def)

text \<open>
  The bank afterwards. When a question matches the difficulty, the working array is the
  filter's fresh array and the bank is as before. When none matches, the working array is
  the bank itself, and the bank is left padded and rearranged.
\<close>

lemma generateQuiz_bank_filtered:
  assumes "bankOf s = Some bank"
    and "filter (\<lambda>q. difficulty q = cfgDifficulty (quizConfig s)) bank \<noteq> []"
  shows "bankOf (generateQuiz rnd s) = Some bank"
proof -
  from assms(2) have "bank \<noteq> []" by auto
  with assms show ?thesis
    by (auto simp: generateQuiz_def Let_def newArrays_def bankOf_def split: option.splits)
qed

lemma generateQuiz_bank_fallback:
  assumes "bankOf s = Some bank" and "bank \<noteq> []"
    and "filter (\<lambda>q. difficulty q = cfgDifficulty (quizConfig s)) bank = []"
  shows "bankOf (generateQuiz rnd s) =
           Some (shuffle (order rnd) (padQuestions (pick rnd) 0 (cfgCount (quizConfig s)) bank))"
  using assms
  by (auto simp: generateQuiz_def Let_def newArrays_def bankOf_def split: option.splits)

text \<open>
  When a question matches the difficulty, every session question does, whatever the count.
\<close>

lemma generateQuiz_only_matching:
  assumes "bankOf s = Some bank"
    and "filter (\<lambda>q. difficulty q = cfgDifficulty (quizConfig s)) bank \<noteq> []"
  shows "\<forall>sq\<in>set (quizSession (generateQuiz rnd s)).
           difficulty sq = cfgDifficulty (quizConfig s)"
proof
  let ?k = "cfgCount (quizConfig s)"
  let ?f = "filter (\<lambda>q. difficulty q = cfgDifficulty (quizConfig s)) bank"
  let ?arr = "shuffle (order rnd) (padQuestions (pick rnd) 0 ?k ?f)"
  fix sq assume mem: "sq \<in> set (quizSession (generateQuiz rnd s))"
  from assms(2) have ne: "bank \<noteq> []" by auto
  have "quizSession (generateQuiz rnd s) = withIds 0 (take ?k ?arr)"
    using generateQuiz_session [OF assms(1) ne, of rnd] assms(2) by simp
  with mem have "sq \<in> set (withIds 0 (take ?k ?arr))" by simp
  from withIds_copy [OF this] obtain q where q: "q \<in> set (take ?k ?arr)" "sq = withId q (qid sq)"
    by blast
  have "set ?arr = set ?f"
    using padQuestions_set [OF assms(2)] by (simp only: shuffle_set)
  with q(1) have "q \<in> set ?f" using set_take_subset [of ?k ?arr] by blast
  then have "difficulty q = cfgDifficulty (quizConfig s)" by simp
  with q(2) show "difficulty sq = cfgDifficulty (quizConfig s)"
    by (metis withId_difficulty)
qed

subsection \<open>Quiz completion\<close>

text \<open>Advancing from the last question of a session is the completion of the quiz.\<close>

lemma nextQuestion_last:
  assumes "length (quizSession s) \<le> currentQIdx s + 1"
  shows "nextQuestion s = finishQuiz s"
  using assms by (simp add: nextQuestion_def)

subsection \<open>What a tick does\<close>

lemma onProgress_state_cases:
  assumes "activeData s = Some d" and "script d = Some ls"
  shows "onProgress t s =
           (if findIndex (\<lambda>line. time line > t) ls \<noteq> - 1
               \<and> findIndex (\<lambda>line. time line > t) ls - 1 \<noteq> currentScriptIdx s
            then Inr (s\<lparr>currentScriptIdx := max 0 (findIndex (\<lambda>line. time line > t) ls - 1)\<rparr>)
            else Inr s)"
  using assms by (simp add: onProgress_def Let_def)

text \<open>The state after a tick is the state before it with the tick's call applied.\<close>

lemma onProgress_applies_call:
  "onProgress t s =
     (case onProgressCall t s of
        Inl e \<Rightarrow> Inl e
      | Inr None \<Rightarrow> Inr s
      | Inr (Some v) \<Rightarrow> Inr (s\<lparr>currentScriptIdx := v\<rparr>))"
  by (simp add: onProgress_def onProgressCall_def Let_def split: option.splits)

lemma onProgressCall_cases:
  assumes "activeData s = Some d" and "script d = Some ls"
  shows "onProgressCall t s =
           (if findIndex (\<lambda>line. time line > t) ls \<noteq> - 1
               \<and> findIndex (\<lambda>line. time line > t) ls - 1 \<noteq> currentScriptIdx s
            then Inr (Some (max 0 (findIndex (\<lambda>line. time line > t) ls - 1)))
            else Inr None)"
  using assms by (simp add: onProgressCall_def Let_def)

text \<open>
  The call stores the value that the cell already holds exactly when the scan finds the
  first line and the active index is 0: the guard compares \<open>- 1\<close> with 0, and the argument
  is clamped to 0. Every other call stores a different index.
\<close>

lemma onProgressCall_equal_value:
  assumes "activeData s = Some d" and "script d = Some ls"
  shows "onProgressCall t s = Inr (Some (currentScriptIdx s))
           \<longleftrightarrow> findIndex (\<lambda>line. time line > t) ls = 0 \<and> currentScriptIdx s = 0"
proof -
  let ?idx = "findIndex (\<lambda>line. time line > t) ls"
  have ge: "- 1 \<le> ?idx" by (rule findIndex_ge)
  show ?thesis
    unfolding onProgressCall_cases [OF assms]
    using ge by (auto split: if_splits)
qed

text \<open>
  A scan that finds a line moves the index to the line before it, whose interval holds
  the playback time (for a current index that is not negative, as every index that the
  handlers store is); a playback time before the first line selects the first line.
\<close>

lemma onProgress_found_interval:
  assumes "activeData s = Some d" and "script d = Some ls"
    and "findIndex (\<lambda>line. time line > t) ls = idx" and "idx \<noteq> - 1"
    and "0 \<le> currentScriptIdx s"
  shows "\<exists>s'. onProgress t s = Inr s' \<and> currentScriptIdx s' = max 0 (idx - 1)"
    and "1 \<le> idx \<Longrightarrow> time (ls ! nat (idx - 1)) \<le> t \<and> t < time (ls ! nat idx)"
    and "idx = 0 \<Longrightarrow> t < time (ls ! 0)"
proof -
  show "\<exists>s'. onProgress t s = Inr s' \<and> currentScriptIdx s' = max 0 (idx - 1)"
    using onProgress_state_cases [OF assms(1,2), of t] assms(3,4,5) by auto
  from assms(3,4) have ne: "findIndex (\<lambda>line. time line > t) ls \<noteq> - 1" by simp
  from findIndex_found [OF ne] assms(3)
  have f: "0 \<le> idx" "nat idx < length ls" "t < time (ls ! nat idx)"
    "\<forall>j < nat idx. \<not> t < time (ls ! j)" by auto
  show "time (ls ! nat (idx - 1)) \<le> t \<and> t < time (ls ! nat idx)" if "1 \<le> idx"
  proof -
    from that have "nat (idx - 1) < nat idx" by simp
    with f(4) have "\<not> t < time (ls ! nat (idx - 1))" by blast
    with f(3) show ?thesis by simp
  qed
  show "t < time (ls ! 0)" if "idx = 0"
    using that f(3) by simp
qed

text \<open>
  A scan that finds no line, that is a playback time at or after every timestamp,
  changes nothing; so in a transcript of two or more lines no tick ever selects the
  last line.
\<close>

lemma onProgress_past_every_line:
  assumes "activeData s = Some d" and "script d = Some ls"
    and "\<forall>l\<in>set ls. time l \<le> t"
  shows "onProgress t s = Inr s"
proof -
  from assms(3) have "\<forall>l\<in>set ls. \<not> time l > t" by auto
  then have "findIndex (\<lambda>line. time line > t) ls = - 1" by (simp add: findIndex_none_iff)
  with onProgress_state_cases [OF assms(1,2), of t] show ?thesis by simp
qed

lemma onProgress_never_selects_last:
  assumes "activeData s = Some d" and "script d = Some ls" and "2 \<le> length ls"
    and "onProgress t s = Inr s'" and "s' \<noteq> s"
  shows "currentScriptIdx s' < int (length ls) - 1"
proof -
  let ?idx = "findIndex (\<lambda>line. time line > t) ls"
  from assms(4,5) onProgress_state_cases [OF assms(1,2), of t]
  have ne: "?idx \<noteq> - 1" and s': "s' = s\<lparr>currentScriptIdx := max 0 (?idx - 1)\<rparr>"
    by (auto split: if_splits)
  from findIndex_found [OF ne] have "nat ?idx < length ls" by blast
  then have "?idx - 1 < int (length ls) - 1" by simp
  with assms(3) s' show ?thesis by simp
qed

subsection \<open>Failure bodies\<close>

text \<open>
  The falsy values, an object's text, and the message for a body that is not \<^verbatim>\<open>null\<close>.
\<close>

lemma falsy_cases:
  "\<not> truthy rt v \<longleftrightarrow>
     v = JNull \<or> v = JBool False \<or> (\<exists>n. v = JNumber n \<and> isZero rt n) \<or> v = JString []"
  by (cases v) auto

lemma toStringJS_plain_object:
  "''toString'' \<notin> fst ` set members \<Longrightarrow> toStringJS rt (JObject members) = Some ''[object Object]''"
  by simp

lemma notOkMessage_not_null:
  assumes "body \<noteq> JNull"
  shows "notOkMessage rt body =
           (case detailOf body of
              None \<Rightarrow> analyzeFailedMsg
            | Some v \<Rightarrow>
                if truthy rt v
                then (case toStringJS rt v of None \<Rightarrow> notPrimitiveMsg rt | Some shown \<Rightarrow> shown)
                else analyzeFailedMsg)"
  using assms by (cases body) simp_all

subsection \<open>The example data\<close>

lemma bankOf_setupState: "bankOf (setupState k lv) = Some [easyQuestion]"
  by (simp add: bankOf_def setupState_def studyState_def exampleBundle_def)

lemma quizConfig_setupState: "quizConfig (setupState k lv) = \<lparr>cfgCount = k, cfgDifficulty = lv\<rparr>"
  by (simp add: setupState_def)

lemma bankOf_withBank: "bankOf (withBank bank s) = Some bank"
  by (simp add: bankOf_def withBank_def)

lemma quizConfig_withBank: "quizConfig (withBank bank s) = quizConfig s"
  by (simp add: withBank_def)

lemma view_withBank: "view (withBank bank s) = view s"
  by (simp add: withBank_def)

lemma activeData_studyState: "activeData studyState = Some exampleBundle"
  by (simp add: studyState_def)

lemma script_exampleBundle: "script exampleBundle = Some twoLines"
  by (simp add: exampleBundle_def)

lemma findIndex_twoLines_1: "findIndex (\<lambda>line. time line > 1) twoLines = 0"
  by (simp add: twoLines_def)

lemma findIndex_twoLines_7: "findIndex (\<lambda>line. time line > 7) twoLines = - 1"
  by (simp add: twoLines_def)

lemma analyzeFailedMsg_length: "length analyzeFailedMsg = 29"
  by (simp add: analyzeFailedMsg_def)

lemma detailOf_validationBody:
  "detailOf validationBody
     = Some (JArray [JObject [(''loc'', JArray [JString ''body'', JString ''url'']),
                              (''msg'', JString ''field required'')]])"
  by (simp add: validationBody_def)

section \<open>Theorems\<close>

subsection \<open>Quiz session builder\<close>

text \<open>
  C1. For every quiz bank of size \<open>n \<ge> 1\<close>, every requested count \<open>k\<close> in
  \<open>{3, 5, 10}\<close> and any requested difficulty, whatever the random source, the session
  that \<^verbatim>\<open>generateQuiz\<close> builds is a list of exactly \<open>k\<close> questions, numbered
  \<open>0, 1, ..., k - 1\<close> in order, each a copy of a bank question with its session id; the view
  becomes \<^verbatim>\<open>quiz\<close>. Nothing is assumed on how \<open>n\<close> compares to \<open>k\<close>.
\<close>

theorem generateQuiz_session_length:
  assumes "bankOf s = Some bank" and "1 \<le> length bank"
    and "cfgCount (quizConfig s) = k" and "k \<in> {3, 5, 10}"
  shows "length (quizSession (generateQuiz rnd s)) = k
         \<and> map qid (quizSession (generateQuiz rnd s)) = [0..<k]
         \<and> (\<forall>sq\<in>set (quizSession (generateQuiz rnd s)). \<exists>q\<in>set bank. sq = withId q (qid sq))
         \<and> view (generateQuiz rnd s) = Quiz"
proof -
  let ?f = "filter (\<lambda>q. difficulty q = cfgDifficulty (quizConfig s)) bank"
  let ?qs = "if ?f = [] then bank else ?f"
  let ?arr = "shuffle (order rnd) (padQuestions (pick rnd) 0 k ?qs)"
  from assms(2) have ne: "bank \<noteq> []" by auto
  have sess: "quizSession (generateQuiz rnd s) = withIds 0 (take k ?arr)"
    using generateQuiz_session [OF assms(1) ne, of rnd] assms(3) by simp
  have qs_ne: "?qs \<noteq> []" using ne by simp
  have "k \<le> length ?arr"
    by (simp add: shuffle_length padQuestions_length)
  then have len: "length (take k ?arr) = k" by simp
  have "set ?arr = set ?qs"
    using padQuestions_set [OF qs_ne] by (simp only: shuffle_set)
  moreover have "set ?qs \<subseteq> set bank" by auto
  ultimately have sub: "set (take k ?arr) \<subseteq> set bank"
    using set_take_subset [of k ?arr] by blast
  have c1: "length (quizSession (generateQuiz rnd s)) = k"
    by (simp only: sess withIds_length len)
  have c2: "map qid (quizSession (generateQuiz rnd s)) = [0..<k]"
    by (simp only: sess withIds_qid len add_0)
  have c3: "\<forall>sq\<in>set (quizSession (generateQuiz rnd s)). \<exists>q\<in>set bank. sq = withId q (qid sq)"
  proof
    fix sq assume "sq \<in> set (quizSession (generateQuiz rnd s))"
    then have "sq \<in> set (withIds 0 (take k ?arr))" by (simp only: sess)
    from withIds_copy [OF this] obtain q where "q \<in> set (take k ?arr)" "sq = withId q (qid sq)"
      by blast
    with sub show "\<exists>q\<in>set bank. sq = withId q (qid sq)" by blast
  qed
  from c1 c2 c3 generateQuiz_view [OF assms(1) ne] show ?thesis by blast
qed

text \<open>
  An instance: a bank of one easy question, three questions requested at difficulty
  \<^verbatim>\<open>hard\<close>.
\<close>

theorem generateQuiz_session_length_witness:
  "bankOf (setupState 3 ''hard'') = Some [easyQuestion]
   \<and> 1 \<le> length [easyQuestion]
   \<and> cfgCount (quizConfig (setupState 3 ''hard'')) = 3
   \<and> (3::nat) \<in> {3, 5, 10}
   \<and> length (quizSession (generateQuiz zeroSource (setupState 3 ''hard''))) = 3
   \<and> map qid (quizSession (generateQuiz zeroSource (setupState 3 ''hard''))) = [0..<3]
   \<and> view (generateQuiz zeroSource (setupState 3 ''hard'')) = Quiz"
proof -
  have h1: "bankOf (setupState 3 ''hard'') = Some [easyQuestion]" by (rule bankOf_setupState)
  have h2: "1 \<le> length [easyQuestion]" by simp
  have h3: "cfgCount (quizConfig (setupState 3 ''hard'')) = 3" by (simp add: quizConfig_setupState)
  have h4: "(3::nat) \<in> {3, 5, 10}" by simp
  from generateQuiz_session_length [OF h1 h2 h3 h4, of zeroSource] h1 h2 h3 h4
  show ?thesis by blast
qed

text \<open>
  C4. When the quiz bank is absent (no bundle, or a bundle without a bank) or empty,
  \<^verbatim>\<open>generateQuiz\<close> called in the \<^verbatim>\<open>quiz_setup\<close> view only alerts the user that there is
  no quiz data: the view stays \<^verbatim>\<open>quiz_setup\<close>, it does not become \<^verbatim>\<open>quiz\<close>, and no
  session is built.
\<close>

theorem generateQuiz_empty_bank:
  assumes "bankOf s = None \<or> bankOf s = Some []" and "view s = QuizSetup"
  shows "generateQuiz rnd s = s\<lparr>alerts := alerts s @ [noQuizDataMsg]\<rparr>
         \<and> view (generateQuiz rnd s) = QuizSetup
         \<and> view (generateQuiz rnd s) \<noteq> Quiz
         \<and> alerts (generateQuiz rnd s) = alerts s @ [noQuizDataMsg]
         \<and> quizSession (generateQuiz rnd s) = quizSession s"
  using assms by (auto simp: generateQuiz_def)

text \<open>
  An instance: the example bundle with an empty bank.
\<close>

theorem generateQuiz_empty_bank_witness:
  "(bankOf (withBank [] (setupState 3 ''easy'')) = None
      \<or> bankOf (withBank [] (setupState 3 ''easy'')) = Some [])
   \<and> view (withBank [] (setupState 3 ''easy'')) = QuizSetup
   \<and> view (generateQuiz zeroSource (withBank [] (setupState 3 ''easy''))) = QuizSetup
   \<and> alerts (generateQuiz zeroSource (withBank [] (setupState 3 ''easy''))) = [noQuizDataMsg]"
proof -
  let ?s = "withBank [] (setupState 3 ''easy'')"
  have h1: "bankOf ?s = None \<or> bankOf ?s = Some []" by (simp add: bankOf_withBank)
  have h2: "view ?s = QuizSetup" by (simp add: view_withBank setupState_def)
  have a: "alerts ?s = []"
    by (simp add: withBank_def setupState_def studyState_def initialState_def)
  from generateQuiz_empty_bank [OF h1 h2, of zeroSource] a h1 h2 show ?thesis by simp
qed

text \<open>
  C7. The claim: building a quiz session leaves the bank of the bundle unchanged. The
  code at a bank of one easy question, with three questions requested at difficulty
  \<^verbatim>\<open>hard\<close>: no question matches, \<^verbatim>\<open>questions\<close> is the bank itself, and the padding loop
  pushes two copies into it. Whatever the random source, the bank holds three questions
  afterwards.
\<close>

theorem generateQuiz_fallback_grows_bank:
  "bankOf (setupState 3 ''hard'') = Some [easyQuestion]
   \<and> bankOf (generateQuiz rnd (setupState 3 ''hard''))
       = Some [easyQuestion, easyQuestion, easyQuestion]"
proof -
  let ?s = "setupState 3 ''hard''"
  let ?arr = "shuffle (order rnd) (padQuestions (pick rnd) 0 3 [easyQuestion])"
  have cfg: "quizConfig ?s = \<lparr>cfgCount = 3, cfgDifficulty = ''hard''\<rparr>"
    by (rule quizConfig_setupState)
  have nomatch: "filter (\<lambda>q. difficulty q = cfgDifficulty (quizConfig ?s)) [easyQuestion] = []"
    by (simp add: cfg easyQuestion_def)
  have "bankOf (generateQuiz rnd ?s)
          = Some (shuffle (order rnd) (padQuestions (pick rnd) 0 (cfgCount (quizConfig ?s)) [easyQuestion]))"
    by (rule generateQuiz_bank_fallback [OF bankOf_setupState _ nomatch]) simp
  then have b: "bankOf (generateQuiz rnd ?s) = Some ?arr" by (simp add: cfg)
  have len: "length ?arr = 3" by (simp add: shuffle_length padQuestions_length)
  have "set ?arr = set [easyQuestion]"
    by (simp only: shuffle_set) (rule padQuestions_set, simp)
  then have "set ?arr \<subseteq> {easyQuestion}" by simp
  from same_elements_replicate [OF len this]
  have "?arr = [easyQuestion, easyQuestion, easyQuestion]"
    by (simp add: numeral_3_eq_3)
  with b bankOf_setupState show ?thesis by simp
qed

text \<open>
  C8. For every bank with at least one question of the requested difficulty, no question
  of another difficulty appears in the built session, unless the matching questions are
  fewer than the requested count \<open>k\<close>. (By \<open>generateQuiz_only_matching\<close> the bound on
  \<open>k\<close> is not even needed.)
\<close>

theorem generateQuiz_difficulty_preference:
  assumes "bankOf s = Some bank"
    and "\<exists>q\<in>set bank. difficulty q = cfgDifficulty (quizConfig s)"
    and "cfgCount (quizConfig s)
           \<le> length (filter (\<lambda>q. difficulty q = cfgDifficulty (quizConfig s)) bank)"
  shows "\<forall>sq\<in>set (quizSession (generateQuiz rnd s)).
           difficulty sq = cfgDifficulty (quizConfig s)"
proof -
  from assms(2) have "filter (\<lambda>q. difficulty q = cfgDifficulty (quizConfig s)) bank \<noteq> []"
    by (simp add: filter_empty_conv)
  from generateQuiz_only_matching [OF assms(1) this] show ?thesis .
qed

text \<open>
  An instance: a bank of three easy questions and a hard one, three questions requested
  at difficulty \<^verbatim>\<open>easy\<close>.
\<close>

theorem generateQuiz_difficulty_preference_witness:
  "bankOf (withBank mixedBank (setupState 3 ''easy'')) = Some mixedBank
   \<and> (\<exists>q\<in>set mixedBank. difficulty q = cfgDifficulty (quizConfig (withBank mixedBank (setupState 3 ''easy''))))
   \<and> cfgCount (quizConfig (withBank mixedBank (setupState 3 ''easy'')))
        \<le> length (filter (\<lambda>q. difficulty q = cfgDifficulty (quizConfig (withBank mixedBank (setupState 3 ''easy'')))) mixedBank)
   \<and> hardQuestion \<in> set mixedBank
   \<and> difficulty ` set (quizSession (generateQuiz zeroSource (withBank mixedBank (setupState 3 ''easy'')))) \<subseteq> {''easy''}"
proof -
  let ?s = "withBank mixedBank (setupState 3 ''easy'')"
  have cfg: "quizConfig ?s = \<lparr>cfgCount = 3, cfgDifficulty = ''easy''\<rparr>"
    by (simp add: quizConfig_withBank quizConfig_setupState)
  have h1: "bankOf ?s = Some mixedBank" by (rule bankOf_withBank)
  have cd: "cfgDifficulty (quizConfig ?s) = ''easy''" by (simp add: cfg)
  have cc: "cfgCount (quizConfig ?s) = 3" by (simp add: cfg)
  have h2: "\<exists>q\<in>set mixedBank. difficulty q = cfgDifficulty (quizConfig ?s)"
    by (simp only: cd) (simp add: mixedBank_def easyQuestion_def)
  have h3: "cfgCount (quizConfig ?s)
        \<le> length (filter (\<lambda>q. difficulty q = cfgDifficulty (quizConfig ?s)) mixedBank)"
    by (simp only: cd cc) (simp add: mixedBank_def easyQuestion_def hardQuestion_def)
  have h4: "hardQuestion \<in> set mixedBank" by (simp add: mixedBank_def)
  from generateQuiz_difficulty_preference [OF h1 h2 h3, of zeroSource]
  have "difficulty ` set (quizSession (generateQuiz zeroSource ?s)) \<subseteq> {cfgDifficulty (quizConfig ?s)}"
    by blast
  then have "difficulty ` set (quizSession (generateQuiz zeroSource ?s)) \<subseteq> {''easy''}"
    by (simp only: cd)
  with h1 h2 h3 h4 show ?thesis by blast
qed

subsection \<open>Transcript synchronizer\<close>

text \<open>
  C2. The claim: after a tick at playback time \<open>t\<close> the active index \<open>i\<close> satisfies
  \<open>time (ls ! i) \<le> t < time (ls ! (i + 1))\<close>, or \<open>i\<close> is the last index when \<open>t\<close> is at or
  after the last timestamp. The code on the transcript with lines at 2 and 5 seconds,
  active index 0, at playback time 7: the scan finds no line, the tick changes nothing,
  and the active index stays 0, although the last line (index 1) started at 5.
\<close>

theorem onProgress_skips_last_line:
  "activeData studyState = Some exampleBundle
   \<and> script exampleBundle = Some twoLines
   \<and> length twoLines = 2
   \<and> time (twoLines ! 1) \<le> 7
   \<and> currentScriptIdx studyState = 0
   \<and> onProgress 7 studyState = Inr studyState"
  by (simp add: onProgress_state_cases [OF activeData_studyState script_exampleBundle]
        findIndex_twoLines_7 activeData_studyState script_exampleBundle)
     (simp add: twoLines_def studyState_def initialState_def)

text \<open>
  C9. The claim: a tick updates the active-index state only when the index it computes
  differs from the current active index. The code on the transcript with lines at 2 and 5
  seconds, active index 0, at playback time 1: the scan finds the first line, the guard
  compares \<^verbatim>\<open>idx - 1\<close>, that is \<open>- 1\<close>, with 0, and the tick calls
  \<^verbatim>\<open>setCurrentScriptIdx(0)\<close>, although the computed index 0 is the current one.
\<close>

theorem onProgress_redundant_call:
  "activeData studyState = Some exampleBundle
   \<and> script exampleBundle = Some twoLines
   \<and> currentScriptIdx studyState = 0
   \<and> computedIdx twoLines 1 = Some 0
   \<and> onProgressCall 1 studyState = Inr (Some 0)"
proof -
  have cur: "currentScriptIdx studyState = 0" by (simp add: studyState_def initialState_def)
  have c: "computedIdx twoLines 1 = Some 0"
    by (simp add: computedIdx_def findIndex_twoLines_1)
  have "onProgressCall 1 studyState = Inr (Some 0)"
    by (simp add: onProgressCall_cases [OF activeData_studyState script_exampleBundle]
          findIndex_twoLines_1 cur)
  with cur c activeData_studyState script_exampleBundle show ?thesis by simp
qed

subsection \<open>Progress accumulator\<close>

text \<open>
  C3. Completing a quiz with final score \<open>s\<close> adds exactly \<open>s * 10 + 20\<close> to the
  cumulative experience and to today's experience, leaves the streak unchanged, and the
  resulting stats do not depend on the quiz configuration (count and difficulty).
\<close>

theorem finishQuiz_reward:
  "xp (userStats (finishQuiz s)) = xp (userStats s) + (int (score s) * 10 + 20)
   \<and> todayXp (userStats (finishQuiz s)) = todayXp (userStats s) + (int (score s) * 10 + 20)
   \<and> streak (userStats (finishQuiz s)) = streak (userStats s)
   \<and> userStats (finishQuiz (s\<lparr>quizConfig := c\<rparr>)) = userStats (finishQuiz s)"
  by (simp add: finishQuiz_def gainedXp_def)

text \<open>
  An instance: a fresh session completing a quiz with score 3 gains 50.
\<close>

theorem finishQuiz_reward_witness:
  "xp (userStats (finishQuiz (initialState\<lparr>score := 3\<rparr>))) = 1300
   \<and> todayXp (userStats (finishQuiz (initialState\<lparr>score := 3\<rparr>))) = 90
   \<and> streak (userStats (finishQuiz (initialState\<lparr>score := 3\<rparr>))) = 12"
  using finishQuiz_reward [of "initialState\<lparr>score := 3\<rparr>"]
  by (simp add: initialState_def initialUserStats_def)

text \<open>
  C6. Saving a vocabulary entry is idempotent by its surface form. If a saved word has
  the same surface form, the save changes nothing. Otherwise exactly one word is appended
  at the end of the saved words and nothing else changes: the new word has the entry's
  surface form, part of speech and meaning, and its date is the current date. A second
  save of the same entry, on whatever date, changes nothing, so the number of saved words
  stays the same.
\<close>

theorem saveWord_idempotent:
  "((\<exists>w\<in>set (savedWords (userStats s)). word w = word e) \<longrightarrow> saveWord today e s = s)
   \<and> (\<not> (\<exists>w\<in>set (savedWords (userStats s)). word w = word e) \<longrightarrow>
        saveWord today e s =
          s\<lparr>userStats := (userStats s)\<lparr>savedWords :=
               savedWords (userStats s)
                 @ [\<lparr>word = word e, wtype = wtype e, meaning = meaning e, date = today\<rparr>]\<rparr>\<rparr>
        \<and> length (savedWords (userStats (saveWord today e s)))
            = length (savedWords (userStats s)) + 1
        \<and> date (last (savedWords (userStats (saveWord today e s)))) = today
        \<and> word (last (savedWords (userStats (saveWord today e s)))) = word e
        \<and> wtype (last (savedWords (userStats (saveWord today e s)))) = wtype e
        \<and> meaning (last (savedWords (userStats (saveWord today e s)))) = meaning e)
   \<and> saveWord today2 e (saveWord today e s) = saveWord today e s
   \<and> length (savedWords (userStats (saveWord today2 e (saveWord today e s))))
       = length (savedWords (userStats (saveWord today e s)))"
proof -
  have a: "(\<exists>w\<in>set (savedWords (userStats s)). word w = word e) \<longrightarrow> saveWord today e s = s"
    by (auto simp: saveWord_def find_None_iff)
  have b: "\<not> (\<exists>w\<in>set (savedWords (userStats s)). word w = word e) \<longrightarrow>
        saveWord today e s =
          s\<lparr>userStats := (userStats s)\<lparr>savedWords :=
               savedWords (userStats s)
                 @ [\<lparr>word = word e, wtype = wtype e, meaning = meaning e, date = today\<rparr>]\<rparr>\<rparr>
        \<and> length (savedWords (userStats (saveWord today e s)))
            = length (savedWords (userStats s)) + 1
        \<and> date (last (savedWords (userStats (saveWord today e s)))) = today
        \<and> word (last (savedWords (userStats (saveWord today e s)))) = word e
        \<and> wtype (last (savedWords (userStats (saveWord today e s)))) = wtype e
        \<and> meaning (last (savedWords (userStats (saveWord today e s)))) = meaning e"
    by (auto simp: saveWord_def find_None_iff stamped_def)
  have present: "\<exists>w\<in>set (savedWords (userStats (saveWord today e s))). word w = word e"
    by (auto simp: saveWord_def find_None_iff stamped_def)
  then have c: "saveWord today2 e (saveWord today e s) = saveWord today e s"
    by (auto simp: saveWord_def [of today2] find_None_iff)
  from a b c show ?thesis by simp
qed

text \<open>
  An instance: saving \<open>appleEntry\<close> twice in a fresh session.
\<close>

theorem saveWord_idempotent_witness:
  "\<not> (\<exists>w\<in>set (savedWords (userStats initialState)). word w = word appleEntry)
   \<and> savedWords (userStats (saveWord ''2024. 1. 1.'' appleEntry initialState))
       = [\<lparr>word = ''apple'', wtype = ''noun'', meaning = ''sagwa'', date = ''2024. 1. 1.''\<rparr>]
   \<and> date (last (savedWords (userStats (saveWord ''2024. 1. 1.'' appleEntry initialState))))
       = ''2024. 1. 1.''
   \<and> (\<exists>w\<in>set (savedWords (userStats (saveWord ''2024. 1. 1.'' appleEntry initialState))).
         word w = word appleEntry)
   \<and> saveWord ''2024. 1. 2.'' appleEntry (saveWord ''2024. 1. 1.'' appleEntry initialState)
       = saveWord ''2024. 1. 1.'' appleEntry initialState"
proof -
  let ?s1 = "saveWord ''2024. 1. 1.'' appleEntry initialState"
  have h1: "\<not> (\<exists>w\<in>set (savedWords (userStats initialState)). word w = word appleEntry)"
    by (simp add: initialState_def initialUserStats_def)
  from saveWord_idempotent [of initialState appleEntry "''2024. 1. 1.''"] h1
  have eq1: "?s1 = initialState\<lparr>userStats := (userStats initialState)\<lparr>savedWords :=
               savedWords (userStats initialState)
                 @ [\<lparr>word = word appleEntry, wtype = wtype appleEntry,
                      meaning = meaning appleEntry, date = ''2024. 1. 1.''\<rparr>]\<rparr>\<rparr>"
    and d: "date (last (savedWords (userStats ?s1))) = ''2024. 1. 1.''"
    by blast+
  from eq1 have sw: "savedWords (userStats ?s1)
      = [\<lparr>word = ''apple'', wtype = ''noun'', meaning = ''sagwa'', date = ''2024. 1. 1.''\<rparr>]"
    by (simp add: initialState_def initialUserStats_def appleEntry_def)
  have h2: "\<exists>w\<in>set (savedWords (userStats ?s1)). word w = word appleEntry"
    by (simp only: sw) (simp add: appleEntry_def)
  from saveWord_idempotent [of ?s1 appleEntry "''2024. 1. 2.''"] h2
  have "saveWord ''2024. 1. 2.'' appleEntry ?s1 = ?s1" by blast
  with h1 sw d h2 show ?thesis by blast
qed

text \<open>
  C10. In a fresh session, before any user action, the user stats are the fixed demo
  values: xp 1250, streak 12, today's xp 40, goal 100 and no saved word. The cumulative
  totals therefore do not start at zero.
\<close>

theorem initial_userStats_demo_values:
  "xp (userStats initialState) = 1250
   \<and> streak (userStats initialState) = 12
   \<and> todayXp (userStats initialState) = 40
   \<and> goalXp (userStats initialState) = 100
   \<and> savedWords (userStats initialState) = []
   \<and> xp (userStats initialState) \<noteq> 0
   \<and> todayXp (userStats initialState) \<noteq> 0"
  by (simp add: initialState_def initialUserStats_def)

subsection \<open>Analyze request\<close>

text \<open>
  C5, as the code has it. For every analyze request (the link is not empty) that ends in
  a network failure or in a response that is not ok, the view returns to \<^verbatim>\<open>home\<close>, the
  loading flag is cleared and the stored bundle is unchanged. The error message is
  \<^item> the message of the thrown error, when \<^verbatim>\<open>fetch\<close> rejects, when the failure body cannot
    be read, and when the failure body is \<^verbatim>\<open>null\<close>;
  \<^item> the detail of the failure body, when it is a string that is not empty;
  \<^item> the default message, when the failure body has no detail or a falsy one
    (\<^verbatim>\<open>null\<close>, \<^verbatim>\<open>false\<close>, zero, the empty string);
  \<^item> the string conversion of the detail, when it is any other value (or the message of
    the TypeError, when the conversion throws).
\<close>

theorem handleUrlSubmit_failure:
  assumes "urlInput s \<noteq> []"
  shows "handleUrlSubmit rt (FetchRejects m) s
           = s\<lparr>errorMsg := m, view := Home, isLoading := False\<rparr>
         \<and> handleUrlSubmit rt (ResponseNotOk (JsonThrows m)) s
           = s\<lparr>errorMsg := m, view := Home, isLoading := False\<rparr>
         \<and> handleUrlSubmit rt (ResponseNotOk (JsonValue JNull)) s
           = s\<lparr>errorMsg := nullReadMsg rt ''detail'', view := Home, isLoading := False\<rparr>
         \<and> (body \<noteq> JNull \<and> detailOf body = Some (JString d) \<and> d \<noteq> [] \<longrightarrow>
               handleUrlSubmit rt (ResponseNotOk (JsonValue body)) s
                 = s\<lparr>errorMsg := d, view := Home, isLoading := False\<rparr>)
         \<and> (body \<noteq> JNull
              \<and> (detailOf body = None \<or> detailOf body = Some JNull
                  \<or> detailOf body = Some (JBool False)
                  \<or> (\<exists>n. detailOf body = Some (JNumber n) \<and> isZero rt n)
                  \<or> detailOf body = Some (JString [])) \<longrightarrow>
               handleUrlSubmit rt (ResponseNotOk (JsonValue body)) s
                 = s\<lparr>errorMsg := analyzeFailedMsg, view := Home, isLoading := False\<rparr>)
         \<and> (body \<noteq> JNull \<and> detailOf body = Some v \<and> truthy rt v \<longrightarrow>
               handleUrlSubmit rt (ResponseNotOk (JsonValue body)) s
                 = s\<lparr>errorMsg := (case toStringJS rt v of
                                     None \<Rightarrow> notPrimitiveMsg rt
                                   | Some shown \<Rightarrow> shown),
                      view := Home, isLoading := False\<rparr>)
         \<and> (outcome = FetchRejects m \<or> outcome = ResponseNotOk r \<longrightarrow>
               view (handleUrlSubmit rt outcome s) = Home
               \<and> isLoading (handleUrlSubmit rt outcome s) = False
               \<and> activeData (handleUrlSubmit rt outcome s) = activeData s)"
proof -
  have fail: "handleUrlSubmit rt oc s = s\<lparr>errorMsg := msg, view := Home, isLoading := False\<rparr>"
    if "tryAnalyze rt oc = Inl msg" for oc msg
    using assms that by (simp add: handleUrlSubmit_def Let_def)
  have c1: "handleUrlSubmit rt (FetchRejects m) s
           = s\<lparr>errorMsg := m, view := Home, isLoading := False\<rparr>"
    by (rule fail) simp
  have c2: "handleUrlSubmit rt (ResponseNotOk (JsonThrows m)) s
           = s\<lparr>errorMsg := m, view := Home, isLoading := False\<rparr>"
    by (rule fail) simp
  have c3: "handleUrlSubmit rt (ResponseNotOk (JsonValue JNull)) s
           = s\<lparr>errorMsg := nullReadMsg rt ''detail'', view := Home, isLoading := False\<rparr>"
    by (rule fail) simp
  have c4: "handleUrlSubmit rt (ResponseNotOk (JsonValue body)) s
                 = s\<lparr>errorMsg := d, view := Home, isLoading := False\<rparr>"
    if "body \<noteq> JNull \<and> detailOf body = Some (JString d) \<and> d \<noteq> []"
    by (rule fail) (use that in \<open>simp add: notOkMessage_not_null\<close>)
  have c5: "handleUrlSubmit rt (ResponseNotOk (JsonValue body)) s
                 = s\<lparr>errorMsg := analyzeFailedMsg, view := Home, isLoading := False\<rparr>"
    if "body \<noteq> JNull
              \<and> (detailOf body = None \<or> detailOf body = Some JNull
                  \<or> detailOf body = Some (JBool False)
                  \<or> (\<exists>n. detailOf body = Some (JNumber n) \<and> isZero rt n)
                  \<or> detailOf body = Some (JString []))"
    by (rule fail) (use that in \<open>auto simp: notOkMessage_not_null\<close>)
  have c6: "handleUrlSubmit rt (ResponseNotOk (JsonValue body)) s
                 = s\<lparr>errorMsg := (case toStringJS rt v of
                                     None \<Rightarrow> notPrimitiveMsg rt
                                   | Some shown \<Rightarrow> shown),
                      view := Home, isLoading := False\<rparr>"
    if "body \<noteq> JNull \<and> detailOf body = Some v \<and> truthy rt v"
    by (rule fail) (use that in \<open>simp add: notOkMessage_not_null\<close>)
  have c7: "view (handleUrlSubmit rt outcome s) = Home
           \<and> isLoading (handleUrlSubmit rt outcome s) = False
           \<and> activeData (handleUrlSubmit rt outcome s) = activeData s"
    if "outcome = FetchRejects m \<or> outcome = ResponseNotOk r"
  proof -
    from that obtain msg where "tryAnalyze rt outcome = Inl msg"
      by (cases r) auto
    from fail [OF this] show ?thesis by simp
  qed
  from c1 c2 c3 c4 c5 c6 c7 show ?thesis by blast
qed

text \<open>
  An instance: a typed link, and five failures. A detail that is a list of objects is
  shown as \<^verbatim>\<open>[object Object]\<close>.
\<close>

theorem handleUrlSubmit_failure_witness:
  "urlInput typedState \<noteq> []
   \<and> errorMsg (handleUrlSubmit exampleRuntime
        (ResponseNotOk (JsonValue (JObject [(''detail'', JString ''Invalid URL'')]))) typedState)
       = ''Invalid URL''
   \<and> errorMsg (handleUrlSubmit exampleRuntime (ResponseNotOk (JsonValue (JObject []))) typedState)
       = analyzeFailedMsg
   \<and> errorMsg (handleUrlSubmit exampleRuntime (ResponseNotOk (JsonValue validationBody)) typedState)
       = ''[object Object]''
   \<and> errorMsg (handleUrlSubmit exampleRuntime (ResponseNotOk (JsonValue JNull)) typedState)
       = ''Cannot read properties of null (reading detail)''
   \<and> view (handleUrlSubmit exampleRuntime (FetchRejects ''Failed to fetch'') typedState) = Home
   \<and> activeData (handleUrlSubmit exampleRuntime (FetchRejects ''Failed to fetch'') typedState) = None"
proof -
  have h: "urlInput typedState \<noteq> []" by (simp add: typedState_def)
  have ad: "activeData typedState = None" by (simp add: typedState_def initialState_def)
  have g1: "errorMsg (handleUrlSubmit exampleRuntime
        (ResponseNotOk (JsonValue (JObject [(''detail'', JString ''Invalid URL'')]))) typedState)
       = ''Invalid URL''"
    using handleUrlSubmit_failure [OF h, of exampleRuntime _ "JObject [(''detail'', JString ''Invalid URL'')]"
        "''Invalid URL''"]
    by simp
  have g2: "errorMsg (handleUrlSubmit exampleRuntime (ResponseNotOk (JsonValue (JObject []))) typedState)
       = analyzeFailedMsg"
    using handleUrlSubmit_failure [OF h, of exampleRuntime _ "JObject []"] by simp
  have g3: "errorMsg (handleUrlSubmit exampleRuntime (ResponseNotOk (JsonValue validationBody)) typedState)
       = ''[object Object]''"
    using handleUrlSubmit_failure [OF h, of exampleRuntime _ validationBody _
        "JArray [JObject [(''loc'', JArray [JString ''body'', JString ''url'']),
                              (''msg'', JString ''field required'')]]"]
      detailOf_validationBody
    by (simp add: validationBody_def)
  have g4: "errorMsg (handleUrlSubmit exampleRuntime (ResponseNotOk (JsonValue JNull)) typedState)
       = ''Cannot read properties of null (reading detail)''"
    using handleUrlSubmit_failure [OF h, of exampleRuntime] by (simp add: exampleRuntime_def)
  have g5: "view (handleUrlSubmit exampleRuntime (FetchRejects ''Failed to fetch'') typedState) = Home
   \<and> activeData (handleUrlSubmit exampleRuntime (FetchRejects ''Failed to fetch'') typedState) = None"
    using handleUrlSubmit_failure [OF h, of exampleRuntime "''Failed to fetch''" _ _ _
        "FetchRejects ''Failed to fetch''"] ad
    by simp
  from h g1 g2 g3 g4 g5 show ?thesis by blast
qed

text \<open>
  C5, as stated, says that the error message is the collaborator's detail string or the
  default message. After a network failure there is no detail string, and the message is
  the text of the rejection, not the default message.
\<close>

theorem handleUrlSubmit_network_failure_message:
  "urlInput typedState \<noteq> []
   \<and> errorMsg (handleUrlSubmit exampleRuntime (FetchRejects ''Failed to fetch'') typedState)
       = ''Failed to fetch''
   \<and> ''Failed to fetch'' \<noteq> analyzeFailedMsg"
proof -
  have ne: "''Failed to fetch'' \<noteq> analyzeFailedMsg"
  proof
    assume "''Failed to fetch'' = analyzeFailedMsg"
    then have "length ''Failed to fetch'' = length analyzeFailedMsg" by (rule arg_cong)
    then show False by (simp add: analyzeFailedMsg_length)
  qed
  have "urlInput typedState \<noteq> []" by (simp add: typedState_def)
  moreover have "errorMsg (handleUrlSubmit exampleRuntime (FetchRejects ''Failed to fetch'') typedState)
                   = ''Failed to fetch''"
    by (simp add: handleUrlSubmit_def Let_def typedState_def)
  ultimately show ?thesis using ne by blast
qed

end
